theory Spec2Isabelle
  imports Main "HOL-Library.Sublist"
begin

section \<open>Byte strings, errors and the outside world\<close>

text \<open>
  A Python \<open>bytes\<close> value is a list of 8-bit characters, which is what HOL's
  \<open>string\<close> is. A Python \<open>str\<close> is represented by its UTF-8 encoding, so that
  \<open>bytes.decode()\<close> checks the encoding and keeps the bytes. The substring test, the
  slicing by an ASCII prefix or suffix and the concatenations the program does on
  \<open>str\<close> values agree with the same operations on the encodings.
\<close>

type_synonym bytes = string

datatype byteorder = LittleEndian | BigEndian

text \<open>
  The exceptions the modelled code can raise. \<open>SystemError\<close> carries the three
  arguments of the format \<^verbatim>\<open>'Colliding %s files: %s and %s'\<close> of
  \<^verbatim>\<open>std.py\<close>; its last argument is printed through the occupying file's
  \<^verbatim>\<open>__repr__\<close>, which shows its path, and is kept here as that path.
\<close>

datatype error =
    UnrecognizedKernelError
  | MissingDecompressorError string
  | StructError
  | OSError
  | UnicodeDecodeError
  | DecompressError
  | NameError
  | TypeError
  | KeyError
  | AttributeError
  | FileNotFoundError
  | IsADirectoryError
  | NotADirectoryError
  | AssertionError
  | SystemError string string string

text \<open>
  What the program reads from its environment: the host's byte order
  (\<^verbatim>\<open>struct.unpack\<close> with the formats \<^verbatim>\<open>'H'\<close> and \<^verbatim>\<open>'I'\<close> is native),
  whether \<^verbatim>\<open>importlib.import_module\<close> finds a codec and what its
  \<^verbatim>\<open>decompress\<close> returns, and the filesystem calls of \<^verbatim>\<open>std.py\<close>:
  \<^verbatim>\<open>glob\<close>, \<^verbatim>\<open>os.path.isdir\<close>, \<^verbatim>\<open>os.stat\<close> (device and inode, behind
  \<^verbatim>\<open>os.path.samefile\<close>) and \<^verbatim>\<open>open(path, 'rb')\<close> followed by the reads, which
  gives the bytes of the file or the exception of the failed \<^verbatim>\<open>open\<close>.
\<close>

record world =
  native :: byteorder
  installed :: "string \<Rightarrow> bool"
  decompress :: "string \<Rightarrow> bytes \<Rightarrow> error + bytes"
  glob :: "string \<Rightarrow> string list"
  isdir :: "string \<Rightarrow> bool"
  stat :: "string \<Rightarrow> (nat \<times> nat) option"
  file_bytes :: "string \<Rightarrow> error + bytes"

subsection \<open>A binary file object\<close>

record fileobj =
  content :: bytes
  pos :: nat

definition open_rb :: "bytes \<Rightarrow> fileobj" where
  "open_rb c = \<lparr>content = c, pos = 0\<rparr>"

definition tell :: "fileobj \<Rightarrow> nat" where
  "tell f = pos f"

text \<open>\<^verbatim>\<open>f.read(n)\<close>: at most \<open>n\<close> bytes from the position, nothing past the end.\<close>

definition read :: "nat \<Rightarrow> fileobj \<Rightarrow> bytes \<times> fileobj" where
  "read n f =
     (let d = take n (drop (pos f) (content f))
      in (d, f\<lparr>pos := pos f + length d\<rparr>))"

text \<open>\<^verbatim>\<open>f.read()\<close>: everything from the position to the end.\<close>

definition read_all :: "fileobj \<Rightarrow> bytes \<times> fileobj" where
  "read_all f =
     (let d = drop (pos f) (content f)
      in (d, f\<lparr>pos := pos f + length d\<rparr>))"

text \<open>\<^verbatim>\<open>f.seek(n)\<close> with \<open>n \<ge> 0\<close>, and \<^verbatim>\<open>f.seek(d, 1)\<close>, which raises
  \<open>OSError\<close> (EINVAL) when the new position would be negative.\<close>

definition seek_set :: "nat \<Rightarrow> fileobj \<Rightarrow> fileobj" where
  "seek_set n f = f\<lparr>pos := n\<rparr>"

definition seek_cur :: "int \<Rightarrow> fileobj \<Rightarrow> error + fileobj" where
  "seek_cur d f =
     (if int (pos f) + d < 0 then Inl OSError
      else Inr (f\<lparr>pos := nat (int (pos f) + d)\<rparr>))"

text \<open>A relative seek forwards cannot fail.\<close>

definition skip :: "nat \<Rightarrow> fileobj \<Rightarrow> fileobj" where
  "skip n f = f\<lparr>pos := pos f + n\<rparr>"

subsection \<open>\<^verbatim>\<open>struct.unpack\<close>, \<^verbatim>\<open>bytes.decode\<close>, \<^verbatim>\<open>bytes.find\<close>\<close>

fun le_nat :: "bytes \<Rightarrow> nat" where
  "le_nat [] = 0"
| "le_nat (c # cs) = of_char c + 256 * le_nat cs"

text \<open>An unsigned field of \<open>n\<close> bytes; \<^verbatim>\<open>struct.error\<close> when the buffer has another
  length.\<close>

definition unpack :: "byteorder \<Rightarrow> nat \<Rightarrow> bytes \<Rightarrow> error + nat" where
  "unpack bo n bs =
     (if length bs \<noteq> n then Inl StructError
      else Inr (case bo of LittleEndian \<Rightarrow> le_nat bs | BigEndian \<Rightarrow> le_nat (rev bs)))"

definition cont :: "nat \<Rightarrow> bool" where
  "cont b = (128 \<le> b \<and> b \<le> 191)"

text \<open>Well-formed UTF-8, as Python's strict decoder accepts it: no overlong form, no
  surrogate, nothing above U+10FFFF.\<close>

fun utf8_valid :: "nat list \<Rightarrow> bool" where
  "utf8_valid [] = True"
| "utf8_valid (a # bs) =
     (if a < 128 then utf8_valid bs
      else if 194 \<le> a \<and> a \<le> 223 then
        (case bs of b # r \<Rightarrow> cont b \<and> utf8_valid r | _ \<Rightarrow> False)
      else if 224 \<le> a \<and> a \<le> 239 then
        (case bs of
           b # c # r \<Rightarrow>
             (if a = 224 then 160 \<le> b \<and> b \<le> 191
              else if a = 237 then 128 \<le> b \<and> b \<le> 159
              else cont b) \<and> cont c \<and> utf8_valid r
         | _ \<Rightarrow> False)
      else if 240 \<le> a \<and> a \<le> 244 then
        (case bs of
           b # c # d # r \<Rightarrow>
             (if a = 240 then 144 \<le> b \<and> b \<le> 191
              else if a = 244 then 128 \<le> b \<and> b \<le> 143
              else cont b) \<and> cont c \<and> cont d \<and> utf8_valid r
         | _ \<Rightarrow> False)
      else False)"

definition decode :: "bytes \<Rightarrow> error + string" where
  "decode bs = (if utf8_valid (map of_char bs) then Inr bs else Inl UnicodeDecodeError)"

text \<open>\<^verbatim>\<open>b.find(pat)\<close>: the index of the first occurrence, \<open>None\<close> for \<open>-1\<close>.\<close>

fun find_bytes :: "bytes \<Rightarrow> bytes \<Rightarrow> nat option" where
  "find_bytes pat [] = (if pat = [] then Some 0 else None)"
| "find_bytes pat (c # cs) =
     (if prefix pat (c # cs) then Some 0 else map_option Suc (find_bytes pat cs))"

text \<open>\<^verbatim>\<open>pat in s\<close> on strings.\<close>

definition contains :: "string \<Rightarrow> string \<Rightarrow> bool" where
  "contains pat s = (find_bytes pat s \<noteq> None)"

text \<open>\<^verbatim>\<open>buf.split(b' ', 1)[0]\<close>: the bytes before the first space.\<close>

definition before_space :: "bytes \<Rightarrow> bytes" where
  "before_space buf = takeWhile (\<lambda>c. c \<noteq> CHR '' '') buf"

section \<open>The image version parser (\<^verbatim>\<open>file.py\<close>, class \<^verbatim>\<open>KernelImage\<close>)\<close>

subsection \<open>\<^verbatim>\<open>ver_from_raw\<close>\<close>

text \<open>The dictionary of magic prefixes, in its insertion order, which is the order
  \<^verbatim>\<open>magic_dict.items()\<close> iterates in.\<close>

definition magic_dict :: "(bytes \<times> string) list" where
  "magic_dict =
     [([CHR 0x1f, CHR 0x8b, CHR 0x08], ''gzip''),
      ([CHR 0x42, CHR 0x5a, CHR 0x68], ''bz2''),
      ([CHR 0xfd, CHR 0x37, CHR 0x7a, CHR 0x58, CHR 0x5a, CHR 0x00], ''lzma''),
      ([CHR 0x5d, CHR 0x00, CHR 0x00], ''lzma''),
      ([CHR 0x04, CHR 0x22, CHR 0x4d, CHR 0x18], ''lz4.frame''),
      ([CHR 0x28, CHR 0xb5, CHR 0x2f, CHR 0xfd], ''zstandard''),
      ([CHR 0x89, CHR 0x4c, CHR 0x5a, CHR 0x4f, CHR 0x00, CHR 0x0d, CHR 0x0a, CHR 0x1a,
        CHR 0x0a], ''lzo'')]"

definition maxlen :: nat where
  "maxlen = foldr (\<lambda>x m. max (length (fst x)) m) magic_dict 0"

text \<open>
  The loop of lines 116 to 133. It has no \<^verbatim>\<open>break\<close>, and its \<^verbatim>\<open>else\<close> belongs
  to the \<^verbatim>\<open>if\<close>: every entry of the dictionary is visited, every visit calls
  \<^verbatim>\<open>f.read()\<close> once and assigns \<open>b\<close>. \<open>b\<close> is \<open>None\<close> while it is unbound.
\<close>

fun magic_loop ::
  "world \<Rightarrow> bytes \<Rightarrow> (bytes \<times> string) list \<Rightarrow> fileobj \<Rightarrow> bytes option
     \<Rightarrow> error + (bytes option \<times> fileobj)" where
  "magic_loop w header [] f b = Inr (b, f)"
| "magic_loop w header ((magic, codec) # rest) f b =
     (if prefix magic header then
        (if \<not> installed w codec then Inl (MissingDecompressorError codec)
         else
           (let (d, f) = read_all f in
            case decompress w codec d of
              Inl e \<Rightarrow> Inl e
            | Inr b' \<Rightarrow> magic_loop w header rest f (Some b')))
      else
        (let (d, f) = read_all f in magic_loop w header rest f (Some d)))"

definition ver_start :: bytes where
  "ver_start = ''Linux version ''"

text \<open>Lines 134 to 148: the search for the banner in the buffer \<open>b\<close>.\<close>

definition ver_from_buf :: "bytes \<Rightarrow> error + string" where
  "ver_from_buf b =
     (case find_bytes ver_start b of
        None \<Rightarrow> Inl UnrecognizedKernelError
      | Some p \<Rightarrow>
          (let p = p + length ver_start;
               sbuf = take 0x100 (drop p b)
           in if CHR '' '' \<notin> set sbuf then Inl UnrecognizedKernelError
              else decode (before_space sbuf)))"

definition ver_from_raw :: "world \<Rightarrow> fileobj \<Rightarrow> error + string" where
  "ver_from_raw w f =
     (let pre = tell f;
          (header, f) = read maxlen f;
          f = seek_set pre f
      in case magic_loop w header magic_dict f None of
           Inl e \<Rightarrow> Inl e
         | Inr (b, f) \<Rightarrow>
             (case b of None \<Rightarrow> Inl NameError | Some b \<Rightarrow> ver_from_buf b))"

subsection \<open>\<^verbatim>\<open>ver_from_BzImage\<close>\<close>

text \<open>The result is \<open>None\<close> where the Python function falls off its end and so
  returns \<^verbatim>\<open>None\<close>.\<close>

definition ver_from_BzImage :: "world \<Rightarrow> fileobj \<Rightarrow> error + string option" where
  "ver_from_BzImage w f =
     (let f = skip 0x200 f;
          (buf, f) = read 0x10 f
      in if length buf \<noteq> 0x10 then Inl UnrecognizedKernelError
         else if take 4 (drop 2 buf) = ''HdrS'' then
           (case unpack (native w) 2 (take 2 (drop 0x0e buf)) of
              Inl e \<Rightarrow> Inl e
            | Inr offset \<Rightarrow>
                (case seek_cur (int offset - 0x10) f of
                   Inl e \<Rightarrow> Inl e
                 | Inr f \<Rightarrow>
                     (let (buf, f) = read 0x100 f
                      in if buf = [] then Inl UnrecognizedKernelError
                         else map_sum id Some (decode (before_space buf)))))
         else Inr None)"

subsection \<open>\<^verbatim>\<open>read_internal_version\<close>\<close>

text \<open>The loop of lines 191 to 200 over \<^verbatim>\<open>range(1, NumberOfSections)\<close>; it returns
  \<open>PointerToRawData\<close>, which is 0 when the loop ends without a \<^verbatim>\<open>break\<close>.\<close>

fun scan_sections :: "world \<Rightarrow> nat list \<Rightarrow> fileobj \<Rightarrow> error + (nat \<times> fileobj)" where
  "scan_sections w [] f = Inr (0, f)"
| "scan_sections w (i # rest) f =
     (let (b, f) = read 8 f in
      case decode b of
        Inl e \<Rightarrow> Inl e
      | Inr Name \<Rightarrow>
          (if contains ''.linux'' Name then
             (case seek_cur (- 8) f of
                Inl e \<Rightarrow> Inl e
              | Inr f \<Rightarrow>
                  (let f = skip 20 f;
                       (b, f) = read 4 f
                   in case unpack (native w) 4 b of
                        Inl e \<Rightarrow> Inl e
                      | Inr PointerToRawData \<Rightarrow>
                          (case seek_cur (- 4) f of
                             Inl e \<Rightarrow> Inl e
                           | Inr f \<Rightarrow> Inr (PointerToRawData, f))))
           else
             (case seek_cur (- 8) f of
                Inl e \<Rightarrow> Inl e
              | Inr f \<Rightarrow> scan_sections w rest (skip 40 f))))"

text \<open>Lines 173 to 200: from the byte at \<open>0x3c\<close> to the section table and through it.
  The file is the one that has just read the two bytes \<^verbatim>\<open>MZ\<close>.\<close>

definition find_payload :: "world \<Rightarrow> fileobj \<Rightarrow> error + (nat \<times> fileobj)" where
  "find_payload w f =
     (let f = seek_set 0x3c f;
          (b, f) = read 1 f
      in case unpack (native w) 1 b of
           Inl e \<Rightarrow> Inl e
         | Inr header_pos \<Rightarrow>
             (let f = seek_set (header_pos + 4) f;
                  f = skip 2 f;
                  (b, f) = read 2 f
              in case unpack (native w) 2 b of
                   Inl e \<Rightarrow> Inl e
                 | Inr NumberOfSections \<Rightarrow>
                     (case seek_cur (- 4) f of
                        Inl e \<Rightarrow> Inl e
                      | Inr f \<Rightarrow>
                          (let f = skip 16 f;
                               (b, f) = read 2 f
                           in case unpack (native w) 2 b of
                                Inl e \<Rightarrow> Inl e
                              | Inr SizeOfOptionalHeader \<Rightarrow>
                                  (case seek_cur (- 18) f of
                                     Inl e \<Rightarrow> Inl e
                                   | Inr f \<Rightarrow>
                                       (let f = skip 20 f;
                                            f = skip SizeOfOptionalHeader f
                                        in scan_sections w [1..<NumberOfSections] f))))))"

text \<open>Lines 201 to 208: the dispatch on the four bytes at \<open>0x202\<close> of the payload.\<close>

definition dispatch_payload :: "world \<Rightarrow> nat \<Rightarrow> fileobj \<Rightarrow> error + string option" where
  "dispatch_payload w PointerToRawData f =
     (let f = seek_set PointerToRawData f;
          f = skip 0x202 f;
          (b, f) = read 4 f
      in if b = ''HdrS'' then
           (case seek_cur (- 0x206) f of
              Inl e \<Rightarrow> Inl e
            | Inr f \<Rightarrow> ver_from_BzImage w f)
         else
           (case seek_cur (- 0x206) f of
              Inl e \<Rightarrow> Inl e
            | Inr f \<Rightarrow> map_sum id Some (ver_from_raw w f)))"

definition read_internal_version :: "world \<Rightarrow> bytes \<Rightarrow> error + string option" where
  "read_internal_version w c =
     (let f = open_rb c;
          (b, f) = read 2 f
      in if b = ''MZ'' then
           (case find_payload w f of
              Inl e \<Rightarrow> Inl e
            | Inr (PointerToRawData, f) \<Rightarrow> dispatch_payload w PointerToRawData f)
         else map_sum id Some (ver_from_raw w f))"

section \<open>Files of a kernel (\<^verbatim>\<open>file.py\<close>)\<close>

datatype KernelFileType =
  KERNEL | SYSTEM_MAP | CONFIG | INITRAMFS | MODULES | BUILD | MISC | EMPTYDIR

text \<open>The enumeration's \<^verbatim>\<open>value\<close>.\<close>

fun ftype_value :: "KernelFileType \<Rightarrow> string" where
  "ftype_value KERNEL = ''vmlinuz''"
| "ftype_value SYSTEM_MAP = ''systemmap''"
| "ftype_value CONFIG = ''config''"
| "ftype_value INITRAMFS = ''initramfs''"
| "ftype_value MODULES = ''modules''"
| "ftype_value BUILD = ''build''"
| "ftype_value MISC = ''misc''"
| "ftype_value EMPTYDIR = ''emptydir''"

text \<open>An object of one of the five classes, with its fields. A \<open>KernelImage\<close> has
  the type \<open>KERNEL\<close> and its \<open>internal_version\<close>, a \<open>ModuleDirectory\<close> the type
  \<open>MODULES\<close>, an \<open>EmptyDirectory\<close> the type \<open>EMPTYDIR\<close>.\<close>

datatype kfile =
    GenericFile string KernelFileType
  | GenericDirectory string KernelFileType
  | KernelImage string "string option"
  | ModuleDirectory string
  | EmptyDirectory string

fun path :: "kfile \<Rightarrow> string" where
  "path (GenericFile p t) = p"
| "path (GenericDirectory p t) = p"
| "path (KernelImage p v) = p"
| "path (ModuleDirectory p) = p"
| "path (EmptyDirectory p) = p"

fun ftype :: "kfile \<Rightarrow> KernelFileType" where
  "ftype (GenericFile p t) = t"
| "ftype (GenericDirectory p t) = t"
| "ftype (KernelImage p v) = KERNEL"
| "ftype (ModuleDirectory p) = MODULES"
| "ftype (EmptyDirectory p) = EMPTYDIR"

text \<open>\<^verbatim>\<open>KernelImage(path)\<close>: the constructor opens the file and reads its version; an
  exception of \<^verbatim>\<open>open\<close> is raised as it is.\<close>

definition new_KernelImage :: "world \<Rightarrow> string \<Rightarrow> error + kfile" where
  "new_KernelImage w p =
     (case file_bytes w p of
        Inl e \<Rightarrow> Inl e
      | Inr c \<Rightarrow>
          (case read_internal_version w c of
             Inl e \<Rightarrow> Inl e
           | Inr v \<Rightarrow> Inr (KernelImage p v)))"

subsection \<open>\<^verbatim>\<open>remove\<close>\<close>

text \<open>What a path is on disk, as far as the three removal calls tell it apart.\<close>

datatype node = Absent | RegularFile | EmptyDir | FullDir

text \<open>\<^verbatim>\<open>os.unlink\<close>, \<^verbatim>\<open>shutil.rmtree\<close> and \<^verbatim>\<open>os.rmdir\<close> on Linux: the exception
  each raises, or nothing. \<open>ENOTEMPTY\<close> is the one error \<^verbatim>\<open>EmptyDirectory.remove\<close>
  catches; it is returned here as \<open>Inr False\<close>.\<close>

fun os_unlink :: "node \<Rightarrow> error + unit" where
  "os_unlink Absent = Inl FileNotFoundError"
| "os_unlink RegularFile = Inr ()"
| "os_unlink EmptyDir = Inl IsADirectoryError"
| "os_unlink FullDir = Inl IsADirectoryError"

fun shutil_rmtree :: "node \<Rightarrow> error + unit" where
  "shutil_rmtree Absent = Inl FileNotFoundError"
| "shutil_rmtree RegularFile = Inl NotADirectoryError"
| "shutil_rmtree EmptyDir = Inr ()"
| "shutil_rmtree FullDir = Inr ()"

fun os_rmdir :: "node \<Rightarrow> error + bool" where
  "os_rmdir Absent = Inl FileNotFoundError"
| "os_rmdir RegularFile = Inl NotADirectoryError"
| "os_rmdir EmptyDir = Inr True"
| "os_rmdir FullDir = Inr False"

text \<open>The method \<^verbatim>\<open>remove\<close> that the object's class has: \<open>GenericFile\<close> and
  \<open>KernelImage\<close> unlink, \<open>GenericDirectory\<close> and \<open>ModuleDirectory\<close> remove the
  tree, \<open>EmptyDirectory\<close> removes the directory if it is empty.\<close>

fun remove :: "(string \<Rightarrow> node) \<Rightarrow> kfile \<Rightarrow> error + bool" where
  "remove disk (GenericFile p t) = map_sum id (\<lambda>_. True) (os_unlink (disk p))"
| "remove disk (KernelImage p v) = map_sum id (\<lambda>_. True) (os_unlink (disk p))"
| "remove disk (GenericDirectory p t) = map_sum id (\<lambda>_. True) (shutil_rmtree (disk p))"
| "remove disk (ModuleDirectory p) = map_sum id (\<lambda>_. True) (shutil_rmtree (disk p))"
| "remove disk (EmptyDirectory p) = os_rmdir (disk p)"

section \<open>The class \<^verbatim>\<open>Kernel\<close>\<close>

text \<open>
  Modelled from the spec: the class \<^verbatim>\<open>Kernel\<close> of \<^verbatim>\<open>ecleankernel/kernel.py\<close>, which
  \<^verbatim>\<open>std.py\<close> imports and whose source is not part of the files at hand. The
  specification gives it a \<open>version\<close> and six optional slots, each holding at most one
  file, where assigning to a slot that is occupied is a collision;
  \<^verbatim>\<open>find_kernels\<close> catches that collision as a \<^verbatim>\<open>KeyError\<close>. A slot is named by
  the \<^verbatim>\<open>value\<close> of its file type.
\<close>

record kernel =
  version :: string
  vmlinuz :: "kfile option"
  systemmap :: "kfile option"
  config :: "kfile option"
  initramfs :: "kfile option"
  modules :: "kfile option"
  build :: "kfile option"

definition Kernel :: "string \<Rightarrow> kernel" where
  "Kernel v =
     \<lparr>version = v, vmlinuz = None, systemmap = None, config = None, initramfs = None,
      modules = None, build = None\<rparr>"

fun getattr :: "kernel \<Rightarrow> KernelFileType \<Rightarrow> kfile option" where
  "getattr k KERNEL = vmlinuz k"
| "getattr k SYSTEM_MAP = systemmap k"
| "getattr k CONFIG = config k"
| "getattr k INITRAMFS = initramfs k"
| "getattr k MODULES = modules k"
| "getattr k BUILD = build k"
| "getattr k MISC = None"
| "getattr k EMPTYDIR = None"

fun put :: "kernel \<Rightarrow> KernelFileType \<Rightarrow> kfile option \<Rightarrow> kernel" where
  "put k KERNEL v = k\<lparr>vmlinuz := v\<rparr>"
| "put k SYSTEM_MAP v = k\<lparr>systemmap := v\<rparr>"
| "put k CONFIG v = k\<lparr>config := v\<rparr>"
| "put k INITRAMFS v = k\<lparr>initramfs := v\<rparr>"
| "put k MODULES v = k\<lparr>modules := v\<rparr>"
| "put k BUILD v = k\<lparr>build := v\<rparr>"
| "put k MISC v = k"
| "put k EMPTYDIR v = k"

text \<open>Modelled from the spec: the assignment to a slot sets it if it is empty and is a
  collision otherwise. \<open>MISC\<close> and \<open>EMPTYDIR\<close> name no slot; \<^verbatim>\<open>find_kernels\<close> never
  assigns to them.\<close>

definition setattr :: "kernel \<Rightarrow> KernelFileType \<Rightarrow> kfile option \<Rightarrow> error + kernel" where
  "setattr k s v =
     (if s = MISC \<or> s = EMPTYDIR then Inl AttributeError
      else if getattr k s \<noteq> None then Inl KeyError
      else Inr (put k s v))"

section \<open>The scan of the standard layout (\<^verbatim>\<open>layout/std.py\<close>)\<close>

text \<open>The dictionary \<open>kernels\<close>, in insertion order, and the set \<open>prev_paths\<close>, as
  a list without repetitions in one of the orders the set may be iterated in.\<close>

type_synonym kernels = "(string \<times> kernel) list"

record scan_state =
  prev_paths :: "string list"
  kernels :: kernels

text \<open>\<^verbatim>\<open>kernels.setdefault(kv, Kernel(kv))\<close>: the value now under the key, and the
  dictionary.\<close>

definition setdefault :: "string \<Rightarrow> kernel \<Rightarrow> kernels \<Rightarrow> kernel \<times> kernels" where
  "setdefault kv d ks =
     (case map_of ks kv of
        Some k \<Rightarrow> (k, ks)
      | None \<Rightarrow> (d, ks @ [(kv, d)]))"

text \<open>The effect, on the dictionary, of mutating the object stored under a key.\<close>

definition store :: "string \<Rightarrow> kernel \<Rightarrow> kernels \<Rightarrow> kernels" where
  "store kv k ks = map (\<lambda>(key, old). if key = kv then (key, k) else (key, old)) ks"

text \<open>\<^verbatim>\<open>os.path.join\<close> of two components.\<close>

definition path_join :: "string \<Rightarrow> string \<Rightarrow> string" where
  "path_join a b =
     (if prefix ''/'' b then b
      else if a = [] \<or> suffix ''/'' a then a @ b
      else a @ ''/'' @ b)"

text \<open>\<^verbatim>\<open>str(Path(s))\<close> on a POSIX host: the components between slashes, without
  the empty ones and the single dots, joined by one slash; a leading slash is kept,
  and exactly two leading slashes are kept as two; the empty path is a dot. The file
  objects hold such paths, \<open>prev_paths\<close> holds the strings as they were matched or
  joined.\<close>

fun split_slash :: "string \<Rightarrow> string list" where
  "split_slash [] = [[]]"
| "split_slash (c # cs) =
     (if c = CHR ''/'' then [] # split_slash cs
      else (case split_slash cs of
              [] \<Rightarrow> [[c]]
            | part # parts \<Rightarrow> (c # part) # parts))"

fun join_slash :: "string list \<Rightarrow> string" where
  "join_slash [] = []"
| "join_slash [part] = part"
| "join_slash (part # parts) = part @ ''/'' @ join_slash parts"

definition Path :: "string \<Rightarrow> string" where
  "Path s =
     (let n = length (takeWhile (\<lambda>c. c = CHR ''/'') s);
          root = (if n = 0 then [] else if n = 2 then ''//'' else ''/'');
          parts = filter (\<lambda>part. part \<noteq> [] \<and> part \<noteq> ''.'') (split_slash s)
      in if root = [] \<and> parts = [] then ''.'' else root @ join_slash parts)"

text \<open>\<^verbatim>\<open>os.path.samefile\<close>: both paths are \<^verbatim>\<open>stat\<close>ed, the first one first, and
  device and inode are compared. \<^verbatim>\<open>any\<close> stops at the first \<^verbatim>\<open>True\<close>.\<close>

definition samefile :: "world \<Rightarrow> string \<Rightarrow> string \<Rightarrow> error + bool" where
  "samefile w x m =
     (case stat w x of
        None \<Rightarrow> Inl FileNotFoundError
      | Some s1 \<Rightarrow>
          (case stat w m of
             None \<Rightarrow> Inl FileNotFoundError
           | Some s2 \<Rightarrow> Inr (s1 = s2)))"

fun any_samefile :: "world \<Rightarrow> string list \<Rightarrow> string \<Rightarrow> error + bool" where
  "any_samefile w [] m = Inr False"
| "any_samefile w (x # xs) m =
     (case samefile w x m of
        Inl e \<Rightarrow> Inl e
      | Inr same \<Rightarrow> if same then Inr True else any_samefile w xs m)"

text \<open>Lines 56 to 61: the version key of a match.\<close>

definition version_key :: "KernelFileType \<Rightarrow> string \<Rightarrow> string \<Rightarrow> string" where
  "version_key cat g m =
     (let kv = drop (length g) m
      in if cat = INITRAMFS then
           (if suffix ''.img'' kv then take (length kv - 4) kv
            else if suffix ''.img.old'' kv then take (length kv - 8) kv @ ''.old''
            else kv)
         else kv)"

text \<open>Lines 82 to 91, for a match of a module directory.\<close>

definition modules_extras ::
  "world \<Rightarrow> string \<Rightarrow> string \<Rightarrow> kernel \<Rightarrow> string list \<Rightarrow> kernels \<Rightarrow> error + scan_state" where
  "modules_extras w kv m newk prev ks =
     (let builddir = path_join m ''build''
      in case (if isdir w builddir then setattr newk BUILD (Some (GenericFile (Path builddir) BUILD))
               else Inr newk) of
           Inl e \<Rightarrow> Inl e
         | Inr newk \<Rightarrow>
             (let ks = store kv newk ks
              in case map_of ks (kv @ ''.old'') of
                   None \<Rightarrow> Inr \<lparr>prev_paths = prev, kernels = ks\<rparr>
                 | Some oldk \<Rightarrow>
                     (case setattr oldk MODULES (modules newk) of
                        Inl e \<Rightarrow> Inl e
                      | Inr oldk \<Rightarrow>
                          (case (if build newk \<noteq> None then setattr oldk BUILD (build newk)
                                 else Inr oldk) of
                             Inl e \<Rightarrow> Inl e
                           | Inr oldk \<Rightarrow>
                               Inr \<lparr>prev_paths = prev,
                                    kernels = store (kv @ ''.old'') oldk ks\<rparr>))))"

text \<open>Lines 92 to 106, for a match of a kernel image.\<close>

definition kernel_extras ::
  "world \<Rightarrow> string list \<Rightarrow> kfile \<Rightarrow> string \<Rightarrow> kernel \<Rightarrow> string list \<Rightarrow> kernels
     \<Rightarrow> error + scan_state" where
  "kernel_extras w exclusions file_obj kv newk prev ks =
     (case file_obj of
        KernelImage p None \<Rightarrow> Inl TypeError
      | KernelImage p (Some realkv) \<Rightarrow>
          (let moduledir = path_join ''/lib/modules'' realkv;
               builddir = path_join moduledir ''build''
           in case (if ''modules'' \<notin> set exclusions \<and> isdir w moduledir then
                      map_sum id (\<lambda>k. (k, List.insert moduledir prev))
                        (setattr newk MODULES (Some (GenericFile (Path moduledir) MODULES)))
                    else Inr (newk, prev)) of
                Inl e \<Rightarrow> Inl e
              | Inr (newk, prev) \<Rightarrow>
                  (case (if ''build'' \<notin> set exclusions \<and> isdir w builddir then
                           map_sum id (\<lambda>k. (k, List.insert builddir prev))
                             (setattr newk BUILD (Some (GenericFile (Path builddir) BUILD)))
                         else Inr (newk, prev)) of
                     Inl e \<Rightarrow> Inl e
                   | Inr (newk, prev) \<Rightarrow>
                       Inr \<lparr>prev_paths = prev, kernels = store kv newk ks\<rparr>))
      | _ \<Rightarrow> Inl AssertionError)"

text \<open>Lines 56 to 106: the body of the inner loop, for the match \<open>m\<close> of the rule
  \<open>(cat, g)\<close>. A skipped match leaves the state as it is.\<close>

definition match_step ::
  "world \<Rightarrow> string list \<Rightarrow> KernelFileType \<Rightarrow> string \<Rightarrow> string \<Rightarrow> scan_state
     \<Rightarrow> error + scan_state" where
  "match_step w exclusions cat g m st =
     (let kv = version_key cat g m
      in case (if cat = MODULES then any_samefile w (prev_paths st) m else Inr False) of
           Inl e \<Rightarrow> Inl e
         | Inr skipped \<Rightarrow>
             if skipped then Inr st
             else
               (case (if cat = KERNEL then new_KernelImage w (Path m)
                      else Inr (GenericFile (Path m) cat)) of
                  Inl e \<Rightarrow> Inl e
                | Inr file_obj \<Rightarrow>
                    (let prev = List.insert m (prev_paths st);
                         (newk, ks) = setdefault kv (Kernel kv) (kernels st)
                     in case setattr newk cat (Some file_obj) of
                          Inl e \<Rightarrow>
                            (if e = KeyError then
                               Inl (SystemError (ftype_value cat) m
                                      (case getattr newk cat of
                                         None \<Rightarrow> ''None''
                                       | Some other \<Rightarrow> path other))
                             else Inl e)
                        | Inr newk \<Rightarrow>
                            (if cat = MODULES then modules_extras w kv m newk prev ks
                             else if cat = KERNEL then
                               kernel_extras w exclusions file_obj kv newk prev ks
                             else Inr \<lparr>prev_paths = prev, kernels = store kv newk ks\<rparr>))))"

fun match_loop ::
  "world \<Rightarrow> string list \<Rightarrow> KernelFileType \<Rightarrow> string \<Rightarrow> string list \<Rightarrow> scan_state
     \<Rightarrow> error + scan_state" where
  "match_loop w exclusions cat g [] st = Inr st"
| "match_loop w exclusions cat g (m # ms) st =
     (case match_step w exclusions cat g m st of
        Inl e \<Rightarrow> Inl e
      | Inr st \<Rightarrow> match_loop w exclusions cat g ms st)"

text \<open>Lines 37 to 47: the rules, in order.\<close>

definition globs :: "string \<Rightarrow> string \<Rightarrow> (KernelFileType \<times> string) list" where
  "globs boot_directory module_directory =
     [(KERNEL, boot_directory @ ''/vmlinuz-''),
      (KERNEL, boot_directory @ ''/vmlinux-''),
      (KERNEL, boot_directory @ ''/kernel-''),
      (KERNEL, boot_directory @ ''/bzImage-''),
      (SYSTEM_MAP, boot_directory @ ''/System.map-''),
      (CONFIG, boot_directory @ ''/config-''),
      (INITRAMFS, boot_directory @ ''/initramfs-''),
      (INITRAMFS, boot_directory @ ''/initrd-''),
      (MODULES, module_directory @ ''/'')]"

fun glob_loop ::
  "world \<Rightarrow> string list \<Rightarrow> (KernelFileType \<times> string) list \<Rightarrow> scan_state
     \<Rightarrow> error + scan_state" where
  "glob_loop w exclusions [] st = Inr st"
| "glob_loop w exclusions ((cat, g) # rest) st =
     (if ftype_value cat \<in> set exclusions then glob_loop w exclusions rest st
      else
        (case match_loop w exclusions cat g (glob w (g @ ''*'')) st of
           Inl e \<Rightarrow> Inl e
         | Inr st \<Rightarrow> glob_loop w exclusions rest st))"

text \<open>Lines 109 to 116: the pass that fills the \<^verbatim>\<open>.old\<close> kernels, over the keys in
  the dictionary's order.\<close>

fun fill_old :: "string list \<Rightarrow> kernels \<Rightarrow> error + kernels" where
  "fill_old [] ks = Inr ks"
| "fill_old (key # rest) ks =
     (case map_of ks key of
        None \<Rightarrow> Inl KeyError
      | Some k \<Rightarrow>
          (case map_of ks (version k @ ''.old'') of
             None \<Rightarrow> fill_old rest ks
           | Some oldk \<Rightarrow>
               (case (if systemmap oldk = None \<and> systemmap k \<noteq> None then
                        setattr oldk SYSTEM_MAP (systemmap k)
                      else Inr oldk) of
                  Inl e \<Rightarrow> Inl e
                | Inr oldk \<Rightarrow>
                    (case (if config oldk = None \<and> config k \<noteq> None then
                             setattr oldk CONFIG (config k)
                           else Inr oldk) of
                       Inl e \<Rightarrow> Inl e
                     | Inr oldk \<Rightarrow>
                         fill_old rest (store (version k @ ''.old'') oldk ks)))))"

definition find_kernels :: "world \<Rightarrow> string list \<Rightarrow> string \<Rightarrow> string \<Rightarrow> error + kernel list" where
  "find_kernels w exclusions boot_directory module_directory =
     (case glob_loop w exclusions (globs boot_directory module_directory)
             \<lparr>prev_paths = [], kernels = []\<rparr> of
        Inl e \<Rightarrow> Inl e
      | Inr st \<Rightarrow>
          (case fill_old (map fst (kernels st)) (kernels st) of
             Inl e \<Rightarrow> Inl e
           | Inr ks \<Rightarrow> Inr (map snd ks)))"

section \<open>Concrete inputs\<close>

text \<open>A world given by tables: the matches of each glob pattern, the directories, the
  device and inode of each path, and the bytes of each file. Every codec is installed
  and rejects its input.\<close>

definition table_world ::
  "(string \<times> string list) list \<Rightarrow> string list \<Rightarrow> (string \<times> nat \<times> nat) list
     \<Rightarrow> (string \<times> bytes) list \<Rightarrow> world" where
  "table_world matches dirs inodes files =
     \<lparr>native = LittleEndian,
      installed = (\<lambda>codec. True),
      decompress = (\<lambda>codec d. Inl DecompressError),
      glob = (\<lambda>pattern. case map_of matches pattern of None \<Rightarrow> [] | Some ms \<Rightarrow> ms),
      isdir = (\<lambda>p. p \<in> set dirs),
      stat = map_of inodes,
      file_bytes =
        (\<lambda>p. case map_of files p of None \<Rightarrow> Inl FileNotFoundError | Some c \<Rightarrow> Inr c)\<rparr>"

definition bare_world :: world where
  "bare_world = table_world [] [] [] []"

text \<open>The sixteen bytes at \<open>0x200\<close> of a bzImage: a jump, the magic \<^verbatim>\<open>HdrS\<close>, and at
  byte 14 the offset of the version string.\<close>

definition setup_block :: "nat \<Rightarrow> bytes" where
  "setup_block off =
     [CHR 0xeb, CHR 0x66] @ ''HdrS'' @ replicate 8 (CHR 0x00) @ [char_of off, CHR 0x00]"

text \<open>A bzImage with an EFI stub: \<^verbatim>\<open>MZ\<close> at 0, the header position \<open>0x40\<close> at
  \<open>0x3c\<close>, no section, the setup block at \<open>0x200\<close> and the version string at
  \<open>0x210\<close>.\<close>

definition efi_bzimage :: bytes where
  "efi_bzimage =
     ''MZ'' @ replicate 58 (CHR 0x00) @ [CHR 0x40] @ replicate 451 (CHR 0x00) @
     setup_block 0x10 @ ''5.10.0 (x)''"

text \<open>The first \<open>0x80\<close> bytes of a PE image: the header at \<open>0x40\<close>, \<open>n\<close> in the field
  \<open>NumberOfSections\<close>, no optional header, and at \<open>0x58\<close> a section table whose first
  entry is named \<^verbatim>\<open>.linux\<close> and points to \<open>0x80\<close>.\<close>

definition pe_header :: "nat \<Rightarrow> bytes" where
  "pe_header n =
     ''MZ'' @ replicate 58 (CHR 0x00) @ [CHR 0x40] @ replicate 3 (CHR 0x00) @
     ''PE'' @ [CHR 0x00, CHR 0x00, CHR 0x64, CHR 0x86] @ [char_of n, CHR 0x00] @
     replicate 16 (CHR 0x00) @
     ''.linux'' @ [CHR 0x00, CHR 0x00] @ replicate 12 (CHR 0x00) @
     [CHR 0x80, CHR 0x00, CHR 0x00, CHR 0x00] @ replicate 16 (CHR 0x00)"

text \<open>A unified kernel image: that header, and at \<open>0x80\<close> a bzImage whose setup block
  gives the offset \<open>off\<close>; the version string stands at offset \<open>0x10\<close>.\<close>

definition uki :: "nat \<Rightarrow> nat \<Rightarrow> bytes" where
  "uki n off = pe_header n @ replicate 0x200 (CHR 0x00) @ setup_block off @ ''5.10.0 (x)''"





text \<open>A stream that is the boot banner itself, and a stream with the gzip magic in a
  world whose gzip codec turns it into that banner.\<close>

definition banner :: bytes where
  "banner = ''Linux version 5.10.0 (gcc) #1 SMP''"

definition gzip_stream :: bytes where
  "gzip_stream = [CHR 0x1f, CHR 0x8b, CHR 0x08] @ ''compressed''"

definition gzip_world :: world where
  "gzip_world =
     (table_world [] [] [] [])
       \<lparr>decompress :=
          (\<lambda>codec d. if codec = ''gzip'' \<and> d = gzip_stream then Inr banner
                      else Inl DecompressError)\<rparr>"

text \<open>A boot directory scanned with a module directory other than
  \<^verbatim>\<open>/lib/modules\<close>, while \<^verbatim>\<open>/lib/modules/5.10.0\<close> exists on the host; the module
  directories of a kernel's \<^verbatim>\<open>.old\<close> name and of the kernel, which the glob lists in
  that order; and one module directory with its \<^verbatim>\<open>build\<close> directory.\<close>

definition foreign_root_world :: world where
  "foreign_root_world =
     table_world
       [(''/boot/vmlinuz-*'', [''/boot/vmlinuz-5.10.0''])]
       [''/lib/modules/5.10.0'', ''/mnt/lib/modules'']
       [(''/boot/vmlinuz-5.10.0'', (1, 10)), (''/lib/modules/5.10.0'', (1, 11))]
       [(''/boot/vmlinuz-5.10.0'', efi_bzimage)]"

definition old_first_world :: world where
  "old_first_world =
     table_world
       [(''/lib/modules/*'', [''/lib/modules/5.10.0.old'', ''/lib/modules/5.10.0''])]
       [''/lib/modules/5.10.0.old'', ''/lib/modules/5.10.0'']
       [(''/lib/modules/5.10.0.old'', (1, 20)), (''/lib/modules/5.10.0'', (1, 21))]
       []"

definition modules_world :: world where
  "modules_world =
     table_world
       [(''/lib/modules/*'', [''/lib/modules/5.10.0''])]
       [''/lib/modules/5.10.0'', ''/lib/modules/5.10.0/build'']
       [(''/lib/modules/5.10.0'', (1, 21))]
       []"



text \<open>For the proofs: a slot is empty or holds an object of the class \<open>GenericFile\<close>;
  the slots \<open>modules\<close> and \<open>build\<close> of every kernel of a dictionary are such.\<close>

definition unlinked :: "kfile option \<Rightarrow> bool" where
  "unlinked s = (case s of None \<Rightarrow> True | Some (GenericFile p t) \<Rightarrow> True | Some _ \<Rightarrow> False)"

definition dirs_unlinked :: "kernels \<Rightarrow> bool" where
  "dirs_unlinked ks = (\<forall>entry \<in> set ks. unlinked (modules (snd entry)) \<and> unlinked (build (snd entry)))"

text \<open>For the proofs: the position of a file is at or past its end.\<close>

definition at_end :: "fileobj \<Rightarrow> bool" where
  "at_end f = (length (content f) \<le> pos f)"

section \<open>The bootloader header behind the \<^verbatim>\<open>HdrS\<close> dispatch\<close>

lemma map_sum_Some_not_None: "map_sum id Some x \<noteq> Inr None"
  by (cases x) simp_all

lemma header_block_HdrS:
  assumes "take 4 (drop (p + 0x202) c) = ''HdrS''"
      and "length (take 0x10 (drop (p + 0x200) c)) = 0x10"
  shows "take 4 (drop 2 (take 0x10 (drop (p + 0x200) c))) = ''HdrS''"
proof -
  have "drop 2 (take 0x10 (drop (p + 0x200) c)) = take 14 (drop (p + 0x202) c)"
    by (simp add: drop_take add.commute)
  then show ?thesis using assms(1) by simp
qed

lemma ver_from_BzImage_block:
  assumes "take 4 (drop (pos f + 0x202) (content f)) = ''HdrS''"
  shows "(let buf = fst (read 0x10 (skip 0x200 f))
          in (length buf = 0x10 \<and> take 4 (drop 2 buf) = ''HdrS'')
           \<or> (length buf \<noteq> 0x10 \<and> ver_from_BzImage w f = Inl UnrecognizedKernelError))"
proof (cases "length (take 0x10 (drop (pos f + 0x200) (content f))) = 0x10")
  case True
  from header_block_HdrS [OF assms True] True show ?thesis
    by (simp add: read_def skip_def Let_def)
next
  case False
  then show ?thesis
    by (simp add: ver_from_BzImage_def read_def skip_def Let_def)
qed

lemma ver_from_BzImage_not_None:
  assumes "take 4 (drop (pos f + 0x202) (content f)) = ''HdrS''"
  shows "ver_from_BzImage w f \<noteq> Inr None"
proof (cases "length (take 0x10 (drop (pos f + 0x200) (content f))) = 0x10")
  case True
  from header_block_HdrS [OF assms True] True show ?thesis
    by (auto simp add: ver_from_BzImage_def read_def skip_def Let_def map_sum_Some_not_None
        split: sum.splits prod.splits)
next
  case False
  then show ?thesis
    by (simp add: ver_from_BzImage_def read_def skip_def Let_def)
qed

text \<open>When the four bytes at \<open>0x202\<close> of the payload are \<^verbatim>\<open>HdrS\<close>, the dispatch is
  the call of \<^verbatim>\<open>ver_from_BzImage\<close> on the file positioned at the payload.\<close>

lemma dispatch_payload_HdrS:
  assumes "take 4 (drop (P + 0x202) (content f)) = ''HdrS''"
  shows "dispatch_payload w P f = ver_from_BzImage w (f\<lparr>pos := P\<rparr>)"
proof -
  have "length (take 4 (drop (P + 0x202) (content f))) = 4"
    using assms by simp
  then have len: "min (length (content f) - (P + 514)) 4 = 4"
    by simp
  show ?thesis
    using assms len
    by (simp add: dispatch_payload_def read_def skip_def seek_set_def seek_cur_def Let_def)
qed

lemma dispatch_payload_not_None: "dispatch_payload w P f \<noteq> Inr None"
proof (cases "take 4 (drop (P + 0x202) (content f)) = ''HdrS''")
  case True
  have "take 4 (drop (pos (f\<lparr>pos := P\<rparr>) + 0x202) (content (f\<lparr>pos := P\<rparr>))) = ''HdrS''"
    using True by simp
  from ver_from_BzImage_not_None [OF this] show ?thesis
    by (simp add: dispatch_payload_HdrS [OF True])
next
  case False
  then show ?thesis
    by (auto simp add: dispatch_payload_def read_def skip_def seek_set_def Let_def
        map_sum_Some_not_None split: sum.splits)
qed

text \<open>
  C10. Whenever \<^verbatim>\<open>read_internal_version\<close> dispatches to \<^verbatim>\<open>ver_from_BzImage\<close>, that
  is, whenever the four bytes at \<open>0x202\<close> past the file's position are \<^verbatim>\<open>HdrS\<close>, the
  sixteen-byte block the parser reads at \<open>0x200\<close> either is complete and has \<^verbatim>\<open>HdrS\<close>
  in its bytes 2 to 6, or is short and the parser raises \<open>UnrecognizedKernelError\<close>;
  the parser then never falls through without a version. So neither the dispatch on a
  payload nor \<^verbatim>\<open>read_internal_version\<close> on any file yields \<^verbatim>\<open>None\<close>.
\<close>

theorem hdrs_dispatch_never_without_version:
  "(fst (read 4 (skip 0x202 f)) = ''HdrS'' \<longrightarrow>
      (let buf = fst (read 0x10 (skip 0x200 f))
       in (length buf = 0x10 \<and> take 4 (drop 2 buf) = ''HdrS'')
        \<or> (length buf \<noteq> 0x10 \<and> ver_from_BzImage w f = Inl UnrecognizedKernelError))
      \<and> ver_from_BzImage w f \<noteq> Inr None)
   \<and> dispatch_payload w P g \<noteq> Inr None
   \<and> read_internal_version w c \<noteq> Inr None"
proof (intro conjI impI)
  assume "fst (read 4 (skip 0x202 f)) = ''HdrS''"
  then have h: "take 4 (drop (pos f + 0x202) (content f)) = ''HdrS''"
    by (simp add: read_def skip_def Let_def)
  from ver_from_BzImage_block [OF h]
  show "let buf = fst (read 0x10 (skip 0x200 f))
        in (length buf = 0x10 \<and> take 4 (drop 2 buf) = ''HdrS'')
         \<or> (length buf \<noteq> 0x10 \<and> ver_from_BzImage w f = Inl UnrecognizedKernelError)" .
  from ver_from_BzImage_not_None [OF h]
  show "ver_from_BzImage w f \<noteq> Inr None" .
next
  show "dispatch_payload w P g \<noteq> Inr None"
    by (rule dispatch_payload_not_None)
next
  show "read_internal_version w c \<noteq> Inr None"
    by (auto simp add: read_internal_version_def Let_def dispatch_payload_not_None
        map_sum_Some_not_None split: sum.splits prod.splits)
qed

theorem hdrs_dispatch_witness:
  "fst (read 4 (skip 0x202 (open_rb efi_bzimage))) = ''HdrS''
   \<and> length (fst (read 0x10 (skip 0x200 (open_rb efi_bzimage)))) = 0x10
   \<and> take 4 (drop 2 (fst (read 0x10 (skip 0x200 (open_rb efi_bzimage))))) = ''HdrS''
   \<and> ver_from_BzImage bare_world (open_rb efi_bzimage) \<noteq> Inr None
   \<and> read_internal_version bare_world efi_bzimage = Inr (Some ''5.10.0'')"
proof -
  have h: "fst (read 4 (skip 0x202 (open_rb efi_bzimage))) = ''HdrS''"
    by code_simp
  have l: "length (fst (read 0x10 (skip 0x200 (open_rb efi_bzimage)))) = 0x10"
    by code_simp
  have v: "read_internal_version bare_world efi_bzimage = Inr (Some ''5.10.0'')"
    by code_simp
  from hdrs_dispatch_never_without_version
         [of "open_rb efi_bzimage" bare_world 0 "open_rb efi_bzimage" efi_bzimage]
  show ?thesis using h l v by (simp add: Let_def)
qed

section \<open>The offset of the version string in a bootloader header\<close>

lemma seek_cur_content: "seek_cur d f = Inr f' \<Longrightarrow> content f' = content f"
  by (auto simp add: seek_cur_def split: if_splits)

lemma read_content: "content (snd (read n f)) = content f"
  by (simp add: read_def Let_def)

lemma skip_content: "content (skip n f) = content f"
  by (simp add: skip_def)

lemma seek_set_content: "content (seek_set n f) = content f"
  by (simp add: seek_set_def)

lemma scan_sections_content:
  "scan_sections w rng f = Inr (P, f') \<Longrightarrow> content f' = content f"
proof (induction rng arbitrary: f)
  case Nil
  then show ?case by simp
next
  case (Cons i rest)
  from Cons.prems show ?case
    apply (simp add: case_prod_unfold Let_def split: sum.splits if_splits)
     apply (auto dest!: seek_cur_content simp add: read_content skip_content)[1]
    apply (auto dest!: seek_cur_content Cons.IH simp add: read_content skip_content)
    done
qed

lemma find_payload_content:
  assumes "find_payload w f = Inr (P, f')"
  shows "content f' = content f"
  using assms
  apply (simp add: find_payload_def case_prod_unfold Let_def split: sum.splits)
  apply (auto dest!: seek_cur_content scan_sections_content
      simp add: read_content skip_content seek_set_content)
  done

lemma ver_from_BzImage_complete_block:
  assumes hdrs: "take 4 (drop (pos f + 0x202) (content f)) = ''HdrS''"
      and len: "pos f + 0x210 \<le> length (content f)"
      and off: "unpack (native w) 2 (take 2 (drop (pos f + 0x20e) (content f))) = Inr offset"
  shows "ver_from_BzImage w f =
           (if length (content f) \<le> pos f + 0x200 + offset then Inl UnrecognizedKernelError
            else map_sum id Some
                   (decode (before_space (take 0x100 (drop (pos f + 0x200 + offset) (content f))))))"
proof -
  let ?buf = "take 0x10 (drop (pos f + 0x200) (content f))"
  have l16: "length ?buf = 0x10" using len by simp
  have magic: "take 4 (drop 2 ?buf) = ''HdrS''"
    by (rule header_block_HdrS [OF hdrs l16])
  have "drop 0x0e ?buf = take 2 (drop (pos f + 0x20e) (content f))"
    by (simp add: drop_take add.commute)
  then have field: "take 2 (drop 0x0e ?buf) = take 2 (drop (pos f + 0x20e) (content f))"
    by simp
  have m: "min (length (content f) - (pos f + 512)) 16 = 16" using len by simp
  have n: "nat (int offset + (int (pos f) + 512)) = offset + (pos f + 512)" by simp
  show ?thesis
    using l16 magic field off m n
    by (simp add: ver_from_BzImage_def read_def skip_def seek_cur_def Let_def add.commute
        add.left_commute)
qed


text \<open>
  C7, as the code has it. Take a container-wrapped image in which the scan of the section
  table gives the payload offset \<open>P\<close>, the four bytes at \<open>P + 0x202\<close> are
  \<^verbatim>\<open>HdrS\<close> and the sixteen-byte block at \<open>P + 0x200\<close> is complete, and let
  \<open>offset\<close> be the unsigned two-byte field at byte 14 of that block. If the position
  \<open>P + 0x200 + offset\<close> is at or past the end of the file, \<^verbatim>\<open>read_internal_version\<close>
  raises \<open>UnrecognizedKernelError\<close>. Otherwise the offset is trusted: the result is
  the decoding of the bytes found there, up to the first space and at most 256 of
  them. The offset is unsigned, so the position is never before the block.
\<close>

theorem bzimage_offset_trusted_unless_past_end:
  assumes mz: "fst (read 2 (open_rb c)) = ''MZ''"
      and sect: "map_sum id fst (find_payload w (snd (read 2 (open_rb c)))) = Inr P"
      and hdrs: "take 4 (drop (P + 0x202) c) = ''HdrS''"
      and len: "P + 0x210 \<le> length c"
      and off: "unpack (native w) 2 (take 2 (drop (P + 0x20e) c)) = Inr offset"
  shows "read_internal_version w c =
           (if length c \<le> P + 0x200 + offset then Inl UnrecognizedKernelError
            else map_sum id Some
                   (decode (before_space (take 0x100 (drop (P + 0x200 + offset) c)))))"
proof -
  from sect obtain f where fp: "find_payload w (snd (read 2 (open_rb c))) = Inr (P, f)"
    by (cases "find_payload w (snd (read 2 (open_rb c)))") auto
  have cf: "content f = c"
    using find_payload_content [OF fp] by (simp add: read_def open_rb_def Let_def)
  have d: "read_internal_version w c = dispatch_payload w P f"
    using mz fp by (simp add: read_internal_version_def Let_def case_prod_unfold)
  have "dispatch_payload w P f = ver_from_BzImage w (f\<lparr>pos := P\<rparr>)"
    by (rule dispatch_payload_HdrS) (simp add: cf hdrs)
  moreover have "ver_from_BzImage w (f\<lparr>pos := P\<rparr>) =
           (if length c \<le> P + 0x200 + offset then Inl UnrecognizedKernelError
            else map_sum id Some
                   (decode (before_space (take 0x100 (drop (P + 0x200 + offset) c)))))"
    using ver_from_BzImage_complete_block [of "f\<lparr>pos := P\<rparr>" w offset] hdrs len off cf
    by simp
  ultimately show ?thesis using d by simp
qed

theorem bzimage_offset_witness:
  "fst (read 2 (open_rb (uki 2 0xff))) = ''MZ''
   \<and> map_sum id fst (find_payload bare_world (snd (read 2 (open_rb (uki 2 0xff))))) = Inr 0x80
   \<and> take 4 (drop (0x80 + 0x202) (uki 2 0xff)) = ''HdrS''
   \<and> 0x80 + 0x210 \<le> length (uki 2 0xff)
   \<and> unpack (native bare_world) 2 (take 2 (drop (0x80 + 0x20e) (uki 2 0xff))) = Inr 0xff
   \<and> length (uki 2 0xff) \<le> 0x80 + 0x200 + 0xff
   \<and> read_internal_version bare_world (uki 2 0xff) = Inl UnrecognizedKernelError"
proof -
  have mz: "fst (read 2 (open_rb (uki 2 0xff))) = ''MZ''"
    by code_simp
  have sect: "map_sum id fst (find_payload bare_world (snd (read 2 (open_rb (uki 2 0xff)))))
                = Inr 0x80"
    by code_simp
  have hdrs: "take 4 (drop (0x80 + 0x202) (uki 2 0xff)) = ''HdrS''"
    by code_simp
  have l: "length (uki 2 0xff) = 0x29a"
    by code_simp
  have off: "unpack (native bare_world) 2 (take 2 (drop (0x80 + 0x20e) (uki 2 0xff))) = Inr 0xff"
    by code_simp
  have len: "0x80 + 0x210 \<le> length (uki 2 0xff)"
    using l by simp
  from bzimage_offset_trusted_unless_past_end [OF mz sect hdrs len off]
  show ?thesis using mz sect hdrs len off l by simp
qed

text \<open>
  C7, as the claim states it, fails: in this image the \<^verbatim>\<open>.linux\<close> section points at a
  payload that passes the \<^verbatim>\<open>HdrS\<close> check, the version string \<^verbatim>\<open>5.10.0\<close> stands at
  offset \<open>0x10\<close> of the block, and the offset field holds 2, which points into the
  header block itself. The parser does not raise; it returns the bytes of the block from
  its magic on.
\<close>

theorem corrupted_offset_returns_string:
  "fst (read 2 (open_rb (uki 2 2))) = ''MZ''
   \<and> map_sum id fst (find_payload bare_world (snd (read 2 (open_rb (uki 2 2))))) = Inr 0x80
   \<and> take 4 (drop (0x80 + 0x202) (uki 2 2)) = ''HdrS''
   \<and> unpack (native bare_world) 2 (take 2 (drop (0x80 + 0x20e) (uki 2 2))) = Inr 2
   \<and> take 7 (drop (0x80 + 0x210) (uki 2 2)) = ''5.10.0 ''
   \<and> read_internal_version bare_world (uki 2 2) =
       Inr (Some (''HdrS'' @ replicate 8 (CHR 0x00) @ [CHR 0x02, CHR 0x00] @ ''5.10.0''))"
  by code_simp


section \<open>Collisions in a slot\<close>








section \<open>Module directories that are the same directory\<close>











section \<open>The raw stream path\<close>

text \<open>After the first visit of the loop the stream is exhausted, so the buffer that
  reaches the search for the banner is what the visit of the last entry, the one of
  \<^verbatim>\<open>lzo\<close>, assigns: the decompression of no bytes, or no bytes.\<close>

lemma read_all_at_end: "at_end (snd (read_all f))"
  by (simp add: read_all_def at_end_def Let_def)

lemma read_all_when_at_end: "at_end f \<Longrightarrow> read_all f = ([], f)"
  by (simp add: read_all_def at_end_def Let_def)

lemma magic_loop_no_match_at_end:
  assumes "at_end f" and "\<forall>e\<in>set entries. \<not> prefix (fst e) h" and "entries \<noteq> []"
  shows "magic_loop w h entries f b = Inr (Some [], f)"
  using assms
proof (induction entries arbitrary: b)
  case Nil
  then show ?case by simp
next
  case (Cons e rest)
  obtain magic codec where e: "e = (magic, codec)" by (cases e)
  show ?case
  proof (cases "rest = []")
    case True
    with Cons.prems e show ?thesis by (simp add: read_all_when_at_end)
  next
    case False
    with Cons e show ?thesis by (simp add: read_all_when_at_end)
  qed
qed

lemma magic_loop_no_match:
  assumes "\<forall>e\<in>set (e1 # rest). \<not> prefix (fst e) h" and "rest \<noteq> []"
  shows "magic_loop w h (e1 # rest) f b = Inr (Some [], snd (read_all f))"
proof -
  obtain magic codec where e: "e1 = (magic, codec)" by (cases e1)
  obtain d f' where r: "read_all f = (d, f')" by (cases "read_all f")
  have "at_end f'" using read_all_at_end [of f] r by simp
  from magic_loop_no_match_at_end [OF this, of rest h w "Some d"] assms
  have "magic_loop w h rest f' (Some d) = Inr (Some [], f')" by simp
  with assms e r show ?thesis by simp
qed

lemma ver_from_buf_empty: "ver_from_buf [] = Inl UnrecognizedKernelError"
  by (simp add: ver_from_buf_def ver_start_def)

lemma magic_dict_shape: "\<exists>e1 rest. magic_dict = e1 # rest \<and> rest \<noteq> []"
  by (simp add: magic_dict_def)

lemma ver_from_raw_no_magic:
  assumes "\<forall>e\<in>set magic_dict. \<not> prefix (fst e) (take maxlen (drop (pos f) (content f)))"
  shows "ver_from_raw w f = Inl UnrecognizedKernelError"
proof -
  obtain e1 rest where md: "magic_dict = e1 # rest" "rest \<noteq> []"
    using magic_dict_shape by blast
  have "magic_loop w (take maxlen (drop (pos f) (content f))) (e1 # rest) (f\<lparr>pos := pos f\<rparr>) None
          = Inr (Some [], snd (read_all (f\<lparr>pos := pos f\<rparr>)))"
    by (rule magic_loop_no_match) (use assms md in simp_all)
  then show ?thesis
    by (simp add: ver_from_raw_def read_def tell_def seek_set_def Let_def md [symmetric]
        ver_from_buf_empty)
qed

lemma magic_loop_at_end:
  assumes "at_end f" and "entries \<noteq> []"
      and "magic_loop w h entries f b = Inr (b', f')"
  shows "\<exists>d. b' = Some d \<and>
           (if prefix (fst (last entries)) h
            then decompress w (snd (last entries)) [] = Inr d else d = [])"
  using assms
proof (induction entries arbitrary: b)
  case Nil
  then show ?case by simp
next
  case (Cons e rest)
  obtain magic codec where e: "e = (magic, codec)" by (cases e)
  show ?case
  proof (cases "rest = []")
    case True
    with Cons.prems e show ?thesis
      by (auto simp add: read_all_when_at_end split: if_splits sum.splits)
  next
    case False
    from Cons.prems e obtain b1 where "magic_loop w h rest f b1 = Inr (b', f')"
      by (auto simp add: read_all_when_at_end split: if_splits sum.splits)
    from Cons.IH [OF Cons.prems(1) False this] False show ?thesis
      by (auto split: if_splits)
  qed
qed

lemma ver_from_raw_only_from_empty_lzo:
  assumes "ver_from_raw w f = Inr v"
  shows "prefix (fst (last magic_dict)) (fst (read maxlen f))
         \<and> (\<exists>d. decompress w ''lzo'' [] = Inr d \<and> ver_from_buf d = Inr v)"
proof -
  let ?h = "take maxlen (drop (pos f) (content f))"
  let ?g = "f\<lparr>pos := pos f\<rparr>"
  obtain e1 rest where md: "magic_dict = e1 # rest" "rest \<noteq> []"
    using magic_dict_shape by blast
  have "last (e1 # rest) = last rest" using md(2) by simp
  then have lastr: "last rest = last magic_dict" by (simp only: md(1))
  have lzo: "snd (last magic_dict) = ''lzo''" by (simp add: magic_dict_def)
  from assms obtain b' f' where loop: "magic_loop w ?h magic_dict ?g None = Inr (Some b', f')"
    and buf: "ver_from_buf b' = Inr v"
    by (auto simp add: ver_from_raw_def read_def tell_def seek_set_def Let_def
        split: sum.splits option.splits)
  obtain magic codec where e: "e1 = (magic, codec)" by (cases e1)
  obtain d g' where r: "read_all ?g = (d, g')" by (cases "read_all ?g")
  have ae: "at_end g'" using read_all_at_end [of ?g] r by simp
  from loop [unfolded md(1) e] r obtain b1 where
    "magic_loop w ?h rest g' b1 = Inr (Some b', f')"
    by (auto split: if_splits sum.splits)
  from magic_loop_at_end [OF ae md(2) this]
  have dec: "(prefix (fst (last magic_dict)) ?h \<longrightarrow> decompress w ''lzo'' [] = Inr b')
             \<and> (\<not> prefix (fst (last magic_dict)) ?h \<longrightarrow> b' = [])"
    using lastr lzo by (auto split: if_splits)
  have "b' \<noteq> []" using buf by (auto simp add: ver_from_buf_empty)
  with dec buf show ?thesis
    by (auto simp add: read_def Let_def)
qed


lemma dispatch_payload_raw:
  assumes "take 4 (drop (P + 0x202) (content f)) \<noteq> ''HdrS''"
      and "P + 0x206 \<le> length (content f)"
  shows "dispatch_payload w P f = map_sum id Some (ver_from_raw w (f\<lparr>pos := P\<rparr>))"
proof -
  have len: "min (length (content f) - (P + 514)) 4 = 4"
    using assms(2) by simp
  show ?thesis
    using assms(1) len
    by (simp add: dispatch_payload_def read_def skip_def seek_set_def seek_cur_def Let_def)
qed

lemma decode_not_unrecognized: "decode bs \<noteq> Inl UnrecognizedKernelError"
  by (simp add: decode_def)

text \<open>Lines 134 to 148 on their own: on a buffer \<open>b\<close> they raise
  \<open>UnrecognizedKernelError\<close> exactly when the marker is absent or no space stands in
  the 256 bytes after it.\<close>

lemma ver_from_buf_unrecognized_iff:
  "ver_from_buf b = Inl UnrecognizedKernelError \<longleftrightarrow>
     (case find_bytes ver_start b of
        None \<Rightarrow> True
      | Some p \<Rightarrow> CHR '' '' \<notin> set (take 0x100 (drop (p + length ver_start) b)))"
  by (simp add: ver_from_buf_def Let_def decode_not_unrecognized split: option.splits)

text \<open>
  C1, where the code departs from the claim. The stream is the uncompressed banner
  \<^verbatim>\<open>Linux version 5.10.0 (gcc) #1 SMP\<close>: the marker stands at its start, the search of
  lines 134 to 148 on these bytes gives \<^verbatim>\<open>5.10.0\<close>, and no magic prefix matches.
  \<^verbatim>\<open>ver_from_raw\<close> raises \<open>UnrecognizedKernelError\<close> on it, and so does
  \<^verbatim>\<open>read_internal_version\<close>.
\<close>

theorem uncompressed_banner_not_found:
  "find_bytes ver_start banner = Some 0
   \<and> ver_from_buf banner = Inr ''5.10.0''
   \<and> ver_from_raw bare_world (open_rb banner) = Inl UnrecognizedKernelError
   \<and> read_internal_version bare_world banner = Inl UnrecognizedKernelError"
proof -
  have a: "find_bytes ver_start banner = Some 0"
    by code_simp
  have b: "ver_from_buf banner = Inr ''5.10.0''"
    by code_simp
  have nm: "\<forall>e\<in>set magic_dict.
              \<not> prefix (fst e) (take maxlen (drop (pos (open_rb banner)) (content (open_rb banner))))"
    by code_simp
  have c: "ver_from_raw bare_world (open_rb banner) = Inl UnrecognizedKernelError"
    by (rule ver_from_raw_no_magic [OF nm])
  have nm2: "\<forall>e\<in>set magic_dict.
              \<not> prefix (fst e) (take maxlen (drop (pos (snd (read 2 (open_rb banner))))
                                            (content (snd (read 2 (open_rb banner))))))"
    by code_simp
  have mz: "fst (read 2 (open_rb banner)) \<noteq> ''MZ''"
    by code_simp
  have d: "read_internal_version bare_world banner = Inl UnrecognizedKernelError"
    using mz ver_from_raw_no_magic [OF nm2, of bare_world]
    by (simp add: read_internal_version_def Let_def case_prod_unfold)
  show ?thesis using a b c d by simp
qed


text \<open>
  C6, where the code departs from the claim. The stream starts with the gzip magic, the
  codec is installed and decompresses it to the banner, which holds the marker and a
  space within the next 256 bytes; \<^verbatim>\<open>ver_from_raw\<close> raises
  \<open>UnrecognizedKernelError\<close> all the same.
\<close>

theorem gzip_banner_unrecognized:
  "prefix [CHR 0x1f, CHR 0x8b, CHR 0x08] gzip_stream
   \<and> installed gzip_world ''gzip''
   \<and> decompress gzip_world ''gzip'' gzip_stream = Inr banner
   \<and> find_bytes ver_start banner = Some 0
   \<and> CHR '' '' \<in> set (take 0x100 (drop (length ver_start) banner))
   \<and> ver_from_raw gzip_world (open_rb gzip_stream) = Inl UnrecognizedKernelError"
proof -
  have a: "prefix [CHR 0x1f, CHR 0x8b, CHR 0x08] gzip_stream"
    by code_simp
  have b: "installed gzip_world ''gzip''"
    by code_simp
  have c: "decompress gzip_world ''gzip'' gzip_stream = Inr banner"
    by code_simp
  have d: "find_bytes ver_start banner = Some 0"
    by code_simp
  have e: "CHR '' '' \<in> set (take 0x100 (drop (length ver_start) banner))"
    by code_simp
  have f: "ver_from_raw gzip_world (open_rb gzip_stream) = Inl UnrecognizedKernelError"
    by code_simp
  show ?thesis using a b c d e f by simp
qed

section \<open>The scan of the section table\<close>

text \<open>
  C2, where the code departs from the claim. The image has 1 in \<open>NumberOfSections\<close>
  and one section, named \<^verbatim>\<open>.linux\<close>, whose pointer to raw data is \<open>0x80\<close>, where a
  bzImage of version \<^verbatim>\<open>5.10.0\<close> stands. The scan visits no entry and gives the
  offset 0, and the version is not found. With 2 in the field the same entry is visited
  and the version is read.
\<close>

theorem last_section_never_examined:
  "unpack (native bare_world) 2 (take 2 (drop 0x46 (uki 1 0x10))) = Inr 1
   \<and> take 8 (drop 0x58 (uki 1 0x10)) = ''.linux'' @ [CHR 0x00, CHR 0x00]
   \<and> unpack (native bare_world) 4 (take 4 (drop 0x6c (uki 1 0x10))) = Inr 0x80
   \<and> map_sum id fst (find_payload bare_world (snd (read 2 (open_rb (uki 1 0x10))))) = Inr 0
   \<and> read_internal_version bare_world (uki 1 0x10) = Inl UnrecognizedKernelError
   \<and> map_sum id fst (find_payload bare_world (snd (read 2 (open_rb (uki 2 0x10))))) = Inr 0x80
   \<and> read_internal_version bare_world (uki 2 0x10) = Inr (Some ''5.10.0'')"
proof -
  have a: "unpack (native bare_world) 2 (take 2 (drop 0x46 (uki 1 0x10))) = Inr 1"
    by code_simp
  have b: "take 8 (drop 0x58 (uki 1 0x10)) = ''.linux'' @ [CHR 0x00, CHR 0x00]"
    by code_simp
  have c: "unpack (native bare_world) 4 (take 4 (drop 0x6c (uki 1 0x10))) = Inr 0x80"
    by code_simp
  have mz: "fst (read 2 (open_rb (uki 1 0x10))) = ''MZ''"
    by code_simp
  have fp: "find_payload bare_world (snd (read 2 (open_rb (uki 1 0x10))))
              = Inr (0, \<lparr>content = uki 1 0x10, pos = 0x58\<rparr>)"
    by code_simp
  have d: "map_sum id fst (find_payload bare_world (snd (read 2 (open_rb (uki 1 0x10))))) = Inr 0"
    unfolding fp by simp
  have nh: "take 4 (drop (0 + 0x202) (content \<lparr>content = uki 1 0x10, pos = 0x58\<rparr>)) \<noteq> ''HdrS''"
    by code_simp
  have ln: "0 + 0x206 \<le> length (content \<lparr>content = uki 1 0x10, pos = 0x58\<rparr>)"
    by code_simp
  have nm: "\<forall>e\<in>set magic_dict.
              \<not> prefix (fst e)
                  (take maxlen (drop (pos \<lparr>content = uki 1 0x10, pos = 0\<rparr>)
                                     (content \<lparr>content = uki 1 0x10, pos = 0\<rparr>)))"
    by code_simp
  have e: "read_internal_version bare_world (uki 1 0x10) = Inl UnrecognizedKernelError"
    using mz fp dispatch_payload_raw [OF nh ln, of bare_world]
      ver_from_raw_no_magic [OF nm, of bare_world]
    by (simp add: read_internal_version_def Let_def case_prod_unfold)
  have f: "map_sum id fst (find_payload bare_world (snd (read 2 (open_rb (uki 2 0x10))))) = Inr 0x80"
    by code_simp
  have g: "read_internal_version bare_world (uki 2 0x10) = Inr (Some ''5.10.0'')"
    by code_simp
  show ?thesis using a b c d e f g by simp
qed

section \<open>Failing scans\<close>

text \<open>
  C3, where the code departs from the claim. The scan is given the module directory
  \<^verbatim>\<open>/mnt/lib/modules\<close>; the image reports the version \<^verbatim>\<open>5.10.0\<close>. The module tree
  assigned to its kernel is \<^verbatim>\<open>/lib/modules/5.10.0\<close>, which is not under the module
  directory.
\<close>

theorem module_tree_outside_module_directory:
  "find_kernels foreign_root_world [] ''/boot'' ''/mnt/lib/modules'' =
     Inr [(Kernel ''5.10.0'')
            \<lparr>vmlinuz := Some (KernelImage ''/boot/vmlinuz-5.10.0'' (Some ''5.10.0'')),
             modules := Some (GenericFile ''/lib/modules/5.10.0'' MODULES)\<rparr>]
   \<and> \<not> prefix ''/mnt/lib/modules'' ''/lib/modules/5.10.0''"
  by code_simp

text \<open>
  C4, where the code departs from the claim. The glob lists
  \<^verbatim>\<open>/lib/modules/5.10.0.old\<close> before \<^verbatim>\<open>/lib/modules/5.10.0\<close>. After the first match
  the kernel \<^verbatim>\<open>5.10.0.old\<close> holds its own module directory; the second match assigns
  to that occupied slot, and the scan ends with the \<open>KeyError\<close> of the collision.
\<close>

theorem old_propagation_collides:
  "glob old_first_world (''/lib/modules/'' @ ''*'') = [''/lib/modules/5.10.0.old'', ''/lib/modules/5.10.0'']
   \<and> map_sum id kernels
        (match_loop old_first_world [] MODULES ''/lib/modules/'' [''/lib/modules/5.10.0.old'']
           \<lparr>prev_paths = [], kernels = []\<rparr>)
       = Inr [(''5.10.0.old'',
               (Kernel ''5.10.0.old'')
                 \<lparr>modules := Some (GenericFile ''/lib/modules/5.10.0.old'' MODULES)\<rparr>)]
   \<and> find_kernels old_first_world [] ''/boot'' ''/lib/modules'' = Inl KeyError"
  by code_simp

subsection \<open>The class of the entries for directories\<close>

text \<open>Every step of the scan keeps the slots \<open>modules\<close> and \<open>build\<close> of all kernels
  empty or filled with objects of the class \<open>GenericFile\<close>, whether the entry comes
  from the glob of the module directory, from an image's version or from the
  propagation to an \<^verbatim>\<open>.old\<close> kernel. So \<^verbatim>\<open>remove\<close> on any of them unlinks.\<close>

lemma unlinked_simps [simp]:
  "unlinked None" "unlinked (Some (GenericFile p t))"
  by (simp_all add: unlinked_def)

lemma setattr_dirs:
  assumes "setattr k s v = Inr k'" and "unlinked (modules k)" and "unlinked (build k)"
      and "s = MODULES \<or> s = BUILD \<longrightarrow> unlinked v"
  shows "unlinked (modules k') \<and> unlinked (build k')"
  using assms by (cases s) (auto simp add: setattr_def split: if_splits)

lemma dirs_unlinked_store:
  "dirs_unlinked ks \<Longrightarrow> unlinked (modules k) \<Longrightarrow> unlinked (build k)
     \<Longrightarrow> dirs_unlinked (store kv k ks)"
  by (auto simp add: dirs_unlinked_def store_def split: if_splits)

lemma dirs_unlinked_lookup:
  "dirs_unlinked ks \<Longrightarrow> map_of ks kv = Some k \<Longrightarrow> unlinked (modules k) \<and> unlinked (build k)"
  by (auto simp add: dirs_unlinked_def dest!: map_of_SomeD)

lemma dirs_unlinked_setdefault:
  assumes "dirs_unlinked ks" and "setdefault kv (Kernel kv) ks = (newk, ks')"
  shows "dirs_unlinked ks' \<and> unlinked (modules newk) \<and> unlinked (build newk)"
  using assms
  by (auto simp add: setdefault_def dirs_unlinked_def Kernel_def
      split: option.splits dest!: map_of_SomeD)

lemma modules_extras_dirs:
  assumes "modules_extras w kv m newk prev ks = Inr st'"
      and "dirs_unlinked ks" and "unlinked (modules newk)" and "unlinked (build newk)"
  shows "dirs_unlinked (kernels st')"
proof -
  obtain newk1 where b: "(if isdir w (path_join m ''build'')
          then setattr newk BUILD (Some (GenericFile (Path (path_join m ''build'')) BUILD))
          else Inr newk) = Inr newk1"
    using assms(1) by (auto simp add: modules_extras_def Let_def split: sum.splits)
  have n1: "unlinked (modules newk1) \<and> unlinked (build newk1)"
    using b assms(3,4) setattr_dirs [of newk BUILD _ newk1]
    by (auto split: if_splits)
  have ks1: "dirs_unlinked (store kv newk1 ks)"
    using dirs_unlinked_store [OF assms(2)] n1 by simp
  show ?thesis
  proof (cases "map_of (store kv newk1 ks) (kv @ ''.old'')")
    case None
    with assms(1) b ks1 show ?thesis
      by (auto simp add: modules_extras_def Let_def split: sum.splits)
  next
    case (Some oldk)
    note o = dirs_unlinked_lookup [OF ks1 Some]
    from assms(1) b Some obtain oldk1 oldk2 where
      s1: "setattr oldk MODULES (modules newk1) = Inr oldk1" and
      s2: "(if build newk1 \<noteq> None then setattr oldk1 BUILD (build newk1) else Inr oldk1)
             = Inr oldk2" and
      res: "kernels st' = store (kv @ ''.old'') oldk2 (store kv newk1 ks)"
      by (auto simp add: modules_extras_def Let_def split: sum.splits)
    have o1: "unlinked (modules oldk1) \<and> unlinked (build oldk1)"
      using setattr_dirs [OF s1] o n1 by simp
    have o2: "unlinked (modules oldk2) \<and> unlinked (build oldk2)"
      using s2 o1 n1 setattr_dirs [of oldk1 BUILD "build newk1" oldk2]
      by (auto split: if_splits)
    show ?thesis
      using dirs_unlinked_store [OF ks1] o2 res by simp
  qed
qed

lemma kernel_extras_dirs:
  assumes "kernel_extras w ex file_obj kv newk prev ks = Inr st'"
      and "dirs_unlinked ks" and "unlinked (modules newk)" and "unlinked (build newk)"
  shows "dirs_unlinked (kernels st')"
proof -
  from assms(1) obtain p realkv where fo: "file_obj = KernelImage p (Some realkv)"
    by (auto simp add: kernel_extras_def split: kfile.splits option.splits)
  let ?md = "path_join ''/lib/modules'' realkv"
  let ?bd = "path_join ?md ''build''"
  from assms(1) fo obtain k1 p1 k2 p2 where
    a: "(if ''modules'' \<notin> set ex \<and> isdir w ?md then
           map_sum id (\<lambda>k. (k, List.insert ?md prev))
             (setattr newk MODULES (Some (GenericFile (Path ?md) MODULES)))
         else Inr (newk, prev)) = Inr (k1, p1)" and
    b: "(if ''build'' \<notin> set ex \<and> isdir w ?bd then
           map_sum id (\<lambda>k. (k, List.insert ?bd p1))
             (setattr k1 BUILD (Some (GenericFile (Path ?bd) BUILD)))
         else Inr (k1, p1)) = Inr (k2, p2)" and
    res: "kernels st' = store kv k2 ks"
    by (auto simp add: kernel_extras_def Let_def split: sum.splits prod.splits)
  have u1: "unlinked (modules k1) \<and> unlinked (build k1)"
  proof (cases "''modules'' \<notin> set ex \<and> isdir w ?md")
    case True
    with a obtain "setattr newk MODULES (Some (GenericFile (Path ?md) MODULES)) = Inr k1"
      by (cases "setattr newk MODULES (Some (GenericFile (Path ?md) MODULES))") auto
    from setattr_dirs [OF this assms(3,4)] show ?thesis by simp
  next
    case False
    with a assms(3,4) show ?thesis by auto
  qed
  have u2: "unlinked (modules k2) \<and> unlinked (build k2)"
  proof (cases "''build'' \<notin> set ex \<and> isdir w ?bd")
    case True
    with b obtain "setattr k1 BUILD (Some (GenericFile (Path ?bd) BUILD)) = Inr k2"
      by (cases "setattr k1 BUILD (Some (GenericFile (Path ?bd) BUILD))") auto
    from setattr_dirs [OF this] u1 show ?thesis by simp
  next
    case False
    with b u1 show ?thesis by auto
  qed
  show ?thesis using dirs_unlinked_store [OF assms(2)] u2 res by simp
qed


lemma new_KernelImage_class:
  "new_KernelImage w p = Inr fo \<Longrightarrow> \<exists>v. fo = KernelImage p v"
  by (auto simp add: new_KernelImage_def split: sum.splits)

lemma match_step_dirs:
  assumes "match_step w ex cat g m st = Inr st'" and "dirs_unlinked (kernels st)"
  shows "dirs_unlinked (kernels st')"
proof (cases "st' = st")
  case True
  with assms(2) show ?thesis by simp
next
  case False
  let ?kv = "version_key cat g m"
  obtain newk ks where sd: "setdefault ?kv (Kernel ?kv) (kernels st) = (newk, ks)"
    by (cases "setdefault ?kv (Kernel ?kv) (kernels st)")
  note d = dirs_unlinked_setdefault [OF assms(2) sd]
  from assms(1) False sd obtain fo newk1 where
    ctor: "(if cat = KERNEL then new_KernelImage w (Path m)
           else Inr (GenericFile (Path m) cat)) = Inr fo" and
    set: "setattr newk cat (Some fo) = Inr newk1" and
    rest: "(if cat = MODULES then modules_extras w ?kv m newk1 (List.insert m (prev_paths st)) ks
            else if cat = KERNEL then
              kernel_extras w ex fo ?kv newk1 (List.insert m (prev_paths st)) ks
            else Inr \<lparr>prev_paths = List.insert m (prev_paths st),
                      kernels = store ?kv newk1 ks\<rparr>) = Inr st'"
    by (auto simp add: match_step_def Let_def split: sum.splits if_splits)
  have fo: "cat = MODULES \<or> cat = BUILD \<longrightarrow> unlinked (Some fo)"
    using ctor by (auto split: if_splits)
  have n1: "unlinked (modules newk1) \<and> unlinked (build newk1)"
    using setattr_dirs [OF set] d fo by simp
  show ?thesis
  proof (cases "cat = MODULES")
    case True
    with rest modules_extras_dirs [of w ?kv m newk1 _ ks st'] d n1 show ?thesis by simp
  next
    case nm: False
    show ?thesis
    proof (cases "cat = KERNEL")
      case True
      with rest kernel_extras_dirs [of w ex fo ?kv newk1 _ ks st'] d n1 show ?thesis by simp
    next
      case False
      with nm rest dirs_unlinked_store [of ks newk1 ?kv] d n1 show ?thesis by auto
    qed
  qed
qed

lemma match_loop_dirs:
  "match_loop w ex cat g ms st = Inr st' \<Longrightarrow> dirs_unlinked (kernels st)
     \<Longrightarrow> dirs_unlinked (kernels st')"
proof (induction ms arbitrary: st)
  case Nil
  then show ?case by simp
next
  case (Cons m ms)
  then show ?case
    by (auto split: sum.splits dest: match_step_dirs)
qed

lemma glob_loop_dirs:
  "glob_loop w ex rules st = Inr st' \<Longrightarrow> dirs_unlinked (kernels st)
     \<Longrightarrow> dirs_unlinked (kernels st')"
proof (induction rules arbitrary: st)
  case Nil
  then show ?case by simp
next
  case (Cons r rules)
  obtain cat g where r: "r = (cat, g)" by (cases r)
  from Cons r show ?case
    by (auto split: sum.splits if_splits dest: match_loop_dirs)
qed

lemma fill_old_dirs:
  "fill_old keys ks = Inr ks' \<Longrightarrow> dirs_unlinked ks \<Longrightarrow> dirs_unlinked ks'"
proof (induction keys arbitrary: ks)
  case Nil
  then show ?case by simp
next
  case (Cons key keys)
  from Cons.prems(1) obtain k where k: "map_of ks key = Some k"
    by (auto split: option.splits)
  show ?case
  proof (cases "map_of ks (version k @ ''.old'')")
    case None
    with Cons k show ?thesis by simp
  next
    case (Some oldk)
    note o = dirs_unlinked_lookup [OF Cons.prems(2) Some]
    from Cons.prems(1) k Some obtain o1 o2 where
      s1: "(if systemmap oldk = None \<and> systemmap k \<noteq> None
            then setattr oldk SYSTEM_MAP (systemmap k) else Inr oldk) = Inr o1" and
      s2: "(if config o1 = None \<and> config k \<noteq> None
            then setattr o1 CONFIG (config k) else Inr o1) = Inr o2" and
      rest: "fill_old keys (store (version k @ ''.old'') o2 ks) = Inr ks'"
      by (auto split: sum.splits)
    have u1: "unlinked (modules o1) \<and> unlinked (build o1)"
      using s1 o setattr_dirs [of oldk SYSTEM_MAP "systemmap k" o1]
      by (auto split: if_splits)
    have u2: "unlinked (modules o2) \<and> unlinked (build o2)"
      using s2 u1 setattr_dirs [of o1 CONFIG "config k" o2]
      by (auto split: if_splits)
    from Cons.IH [OF rest] dirs_unlinked_store [OF Cons.prems(2)] u2 show ?thesis by simp
  qed
qed

lemma find_kernels_dirs_unlinked:
  assumes "find_kernels w ex boot_directory module_directory = Inr ks" and "k \<in> set ks"
  shows "unlinked (modules k) \<and> unlinked (build k)"
proof -
  from assms(1) obtain st ks' where
    g: "glob_loop w ex (globs boot_directory module_directory)
          \<lparr>prev_paths = [], kernels = []\<rparr> = Inr st" and
    f: "fill_old (map fst (kernels st)) (kernels st) = Inr ks'" and
    r: "ks = map snd ks'"
    by (auto simp add: find_kernels_def split: sum.splits)
  have "dirs_unlinked (kernels st)"
    using glob_loop_dirs [OF g] by (simp add: dirs_unlinked_def)
  from fill_old_dirs [OF f this] assms(2) r show ?thesis
    by (auto simp add: dirs_unlinked_def)
qed

lemma unlinked_remove:
  "unlinked (Some fo) \<Longrightarrow> remove disk fo = map_sum id (\<lambda>_. True) (os_unlink (disk (path fo)))"
  by (cases fo) (simp_all add: unlinked_def)

text \<open>
  C5, where the code departs from the claim. The entries of the roles \<open>MODULES\<close> and
  \<open>BUILD\<close> that the scan produces are objects of the class \<open>GenericFile\<close>, whose
  \<^verbatim>\<open>remove\<close> unlinks: on a directory it raises. The classes for directories remove
  the tree.
\<close>

theorem module_entries_unlink:
  "find_kernels modules_world [] ''/boot'' ''/lib/modules'' =
     Inr [(Kernel ''5.10.0'')
            \<lparr>modules := Some (GenericFile ''/lib/modules/5.10.0'' MODULES),
             build := Some (GenericFile ''/lib/modules/5.10.0/build'' BUILD)\<rparr>]
   \<and> remove (\<lambda>p. FullDir) (GenericFile ''/lib/modules/5.10.0'' MODULES) = Inl IsADirectoryError
   \<and> remove (\<lambda>p. FullDir) (GenericFile ''/lib/modules/5.10.0/build'' BUILD) = Inl IsADirectoryError
   \<and> remove (\<lambda>p. FullDir) (ModuleDirectory ''/lib/modules/5.10.0'') = Inr True
   \<and> remove (\<lambda>p. FullDir) (GenericDirectory ''/lib/modules/5.10.0/build'' BUILD) = Inr True"
  by code_simp

end
